theory Spec2Isabelle
  imports
    Complex_Main
    "HOL-Library.Char_ord"
    "HOL-Library.List_Lexorder"
    "HOL-Library.Product_Lexorder"
    "HOL-Library.Multiset"
begin

section \<open>Python values read from the raw store\<close>

text \<open>
  \<^verbatim>\<open>json.loads\<close> returns Python objects. A float is a rational or one of the three
  special values that \<^verbatim>\<open>json.loads\<close> accepts (\<^verbatim>\<open>NaN\<close>, \<^verbatim>\<open>Infinity\<close>, \<^verbatim>\<open>-Infinity\<close>); an
  integer is unbounded; a dict keeps its items in insertion order. JSON \<^verbatim>\<open>null\<close> is
  Python's \<^verbatim>\<open>None\<close>.
\<close>

datatype pyfloat = Finite rat | NaN | PosInf | NegInf

datatype json =
    JNull
  | JBool bool
  | JInt int
  | JFloat pyfloat
  | JStr string
  | JList "json list"
  | JDict "(string \<times> json) list"

text \<open>Truth value of a Python object, as \<^verbatim>\<open>or\<close> and \<^verbatim>\<open>if\<close> test it.\<close>

fun truthy :: "json \<Rightarrow> bool" where
  "truthy JNull = False"
| "truthy (JBool b) = b"
| "truthy (JInt i) = (i \<noteq> 0)"
| "truthy (JFloat (Finite r)) = (r \<noteq> 0)"
| "truthy (JFloat _) = True"
| "truthy (JStr s) = (s \<noteq> [])"
| "truthy (JList xs) = (xs \<noteq> [])"
| "truthy (JDict kvs) = (kvs \<noteq> [])"

text \<open>\<^verbatim>\<open>a or b\<close>: the first operand when it is truthy, the second otherwise.\<close>

definition py_or :: "json \<Rightarrow> json \<Rightarrow> json" where
  "py_or a b = (if truthy a then a else b)"

text \<open>\<^verbatim>\<open>it.get(k)\<close>: the value stored under \<open>k\<close>, \<^verbatim>\<open>None\<close> when the key is absent.\<close>

definition dict_get :: "(string \<times> json) list \<Rightarrow> string \<Rightarrow> json" where
  "dict_get it k = (case map_of it k of None \<Rightarrow> JNull | Some v \<Rightarrow> v)"

section \<open>Strings\<close>

text \<open>
  A text is a list of code points below 256. \<^verbatim>\<open>str.strip()\<close> removes the code points
  for which \<^verbatim>\<open>str.isspace()\<close> holds: 9 to 13, 28 to 32, 133 and 160.
\<close>

definition py_isspace :: "char \<Rightarrow> bool" where
  "py_isspace c =
     (let n = (of_char c :: nat)
      in (9 \<le> n \<and> n \<le> 13) \<or> (28 \<le> n \<and> n \<le> 32) \<or> n = 133 \<or> n = 160)"

definition strip :: "string \<Rightarrow> string" where
  "strip s = rev (dropWhile py_isspace (rev (dropWhile py_isspace s)))"

text \<open>\<^verbatim>\<open>s.find(c)\<close> and \<^verbatim>\<open>s.rfind(c)\<close> for a one-character needle: \<open>-1\<close> when absent.\<close>

definition str_find :: "char \<Rightarrow> string \<Rightarrow> int" where
  "str_find c s =
     (if c \<in> set s then int (length (takeWhile (\<lambda>x. x \<noteq> c) s)) else - 1)"

definition str_rfind :: "char \<Rightarrow> string \<Rightarrow> int" where
  "str_rfind c s =
     (if c \<in> set s
      then int (length s) - 1 - int (length (takeWhile (\<lambda>x. x \<noteq> c) (rev s)))
      else - 1)"

text \<open>\<^verbatim>\<open>s[a:b]\<close>: a negative index counts from the end, and both are clamped.\<close>

definition py_slice :: "string \<Rightarrow> int \<Rightarrow> int \<Rightarrow> string" where
  "py_slice s a b =
     (let n = int (length s);
          a' = (if a < 0 then max 0 (a + n) else min a n);
          b' = (if b < 0 then max 0 (b + n) else min b n)
      in drop (nat a') (take (nat b') s))"

text \<open>
  \<^verbatim>\<open>fn.lower()\<close> on the letters that matter for the two suffixes; the other code points
  below 256 never lower to a character of \<^verbatim>\<open>.json\<close> or \<^verbatim>\<open>.txt\<close>.
\<close>

definition lower_char :: "char \<Rightarrow> char" where
  "lower_char c =
     (let n = (of_char c :: nat)
      in if 65 \<le> n \<and> n \<le> 90 then char_of (n + 32) else c)"

definition endswith :: "string \<Rightarrow> string \<Rightarrow> bool" where
  "endswith s suf = (length suf \<le> length s \<and> drop (length s - length suf) s = suf)"

definition has_raw_ext :: "string \<Rightarrow> bool" where
  "has_raw_ext fn =
     (let l = map lower_char fn in endswith l ''.json'' \<or> endswith l ''.txt'')"

text \<open>
  \<^verbatim>\<open>os.path.splitext(fn)[0]\<close> for a bare file name: the name up to its last dot,
  the whole name when there is no dot or only dots precede the last one.
\<close>

definition splitext_root :: "string \<Rightarrow> string" where
  "splitext_root p =
     (let dotIndex = str_rfind (CHR ''.'') p
      in if dotIndex < 0 then p
         else if \<forall>c \<in> set (take (nat dotIndex) p). c = CHR ''.'' then p
         else take (nat dotIndex) p)"

section \<open>Integers and dates\<close>

text \<open>
  \<^verbatim>\<open>int(s)\<close> on a string: surrounding whitespace is dropped, an optional sign, then
  decimal digits with single underscores between them. \<open>None\<close> is \<^verbatim>\<open>ValueError\<close>.
  The whitespace of \<^verbatim>\<open>int\<close> is narrower than that of \<^verbatim>\<open>str.strip\<close>: code points 9 to 13 and
  32, and of the code points from 127 on those that are spaces, 133 and 160; the
  separators 28 to 31 are not dropped, so \<^verbatim>\<open>int\<close> raises on a string that holds one.
\<close>

definition int_isspace :: "char \<Rightarrow> bool" where
  "int_isspace c =
     (let n = (of_char c :: nat) in (9 \<le> n \<and> n \<le> 13) \<or> n = 32 \<or> n = 133 \<or> n = 160)"

definition int_strip :: "string \<Rightarrow> string" where
  "int_strip s = rev (dropWhile int_isspace (rev (dropWhile int_isspace s)))"

definition is_digit :: "char \<Rightarrow> bool" where
  "is_digit c = (let n = (of_char c :: nat) in 48 \<le> n \<and> n \<le> 57)"

definition digit_val :: "char \<Rightarrow> int" where
  "digit_val c = int (of_char c) - 48"

fun parse_digits :: "int \<Rightarrow> bool \<Rightarrow> string \<Rightarrow> int option" where
  "parse_digits acc prev [] = (if prev then Some acc else None)"
| "parse_digits acc prev (c # cs) =
     (if is_digit c then parse_digits (acc * 10 + digit_val c) True cs
      else if c = CHR ''_'' \<and> prev then parse_digits acc False cs
      else None)"

definition py_int_str :: "string \<Rightarrow> int option" where
  "py_int_str s =
     (case int_strip s of
        [] \<Rightarrow> None
      | c # cs \<Rightarrow>
          if c = CHR ''-'' then map_option uminus (parse_digits 0 False cs)
          else if c = CHR ''+'' then parse_digits 0 False cs
          else parse_digits 0 False (c # cs))"

text \<open>
  \<^verbatim>\<open>int(x)\<close> on a Python object: a float is truncated towards zero, a bool counts as
  0 or 1; \<open>None\<close> stands for the \<^verbatim>\<open>TypeError\<close>, \<^verbatim>\<open>ValueError\<close> or \<^verbatim>\<open>OverflowError\<close>.
\<close>

definition trunc_rat :: "rat \<Rightarrow> int" where
  "trunc_rat r = (if 0 \<le> r then \<lfloor>r\<rfloor> else \<lceil>r\<rceil>)"

fun py_int :: "json \<Rightarrow> int option" where
  "py_int JNull = None"
| "py_int (JBool b) = Some (if b then 1 else 0)"
| "py_int (JInt i) = Some i"
| "py_int (JFloat (Finite r)) = Some (trunc_rat r)"
| "py_int (JFloat _) = None"
| "py_int (JStr s) = py_int_str s"
| "py_int (JList _) = None"
| "py_int (JDict _) = None"

text \<open>
  A calendar date is its number of days since 1970-01-01.
  \<^verbatim>\<open>datetime.utcfromtimestamp(ms / 1000.0).date()\<close> is the day that holds the
  millisecond \<open>ms\<close>; it raises outside the years 1 to 9999, that is before day
  \<open>-719162\<close> or after day \<open>2932896\<close>.
\<close>

type_synonym date = int

definition ms_to_date :: "int \<Rightarrow> date option" where
  "ms_to_date ms =
     (let d = ms div 86400000
      in if - 719162 \<le> d \<and> d \<le> 2932896 then Some d else None)"

text \<open>
  \<^verbatim>\<open>date.isoformat()\<close>: the proleptic Gregorian year, month and day of a day number,
  written \<^verbatim>\<open>YYYY-MM-DD\<close>.
\<close>

definition civil :: "date \<Rightarrow> int \<times> int \<times> int" where
  "civil z0 =
     (let z = z0 + 719468;
          era = z div 146097;
          doe = z - era * 146097;
          yoe = (doe - doe div 1460 + doe div 36524 - doe div 146096) div 365;
          doy = doe - (365 * yoe + yoe div 4 - yoe div 100);
          mp = (5 * doy + 2) div 153;
          d = doy - (153 * mp + 2) div 5 + 1;
          m = (if mp < 10 then mp + 3 else mp - 9);
          y = yoe + era * 400 + (if m \<le> 2 then 1 else 0)
      in (y, m, d))"

definition digit_char :: "int \<Rightarrow> char" where
  "digit_char n = char_of (48 + nat (n mod 10))"

definition pad2 :: "int \<Rightarrow> string" where
  "pad2 n = [digit_char (n div 10), digit_char n]"

definition pad4 :: "int \<Rightarrow> string" where
  "pad4 n = [digit_char (n div 1000), digit_char (n div 100), digit_char (n div 10), digit_char n]"

definition isoformat :: "date \<Rightarrow> string" where
  "isoformat dt = (case civil dt of (y, m, d) \<Rightarrow> pad4 y @ ''-'' @ pad2 m @ ''-'' @ pad2 d)"

section \<open>The classifier\<close>

text \<open>
  The raw store as \<^verbatim>\<open>classify_and_summarize\<close> sees it. \<^verbatim>\<open>os.walk\<close> yields the
  directories in the order the operating system lists them, each with its file names
  in listing order; a directory path is written relative to the raw root and is empty
  for the root itself. A file is looked up by its path relative to the root:
  \<^verbatim>\<open>os.path.getsize\<close> gives its size and \<^verbatim>\<open>open(...).read()\<close> its decoded text, and each
  of the two may raise \<^verbatim>\<open>OSError\<close> (\<open>None\<close>).

  \<^verbatim>\<open>json.loads\<close> is a parameter of the model: \<open>loads txt = None\<close> when it raises.
\<close>

record raw_file =
  getsize :: "nat option"
  read_text :: "string option"

type_synonym raw_store = "string \<Rightarrow> raw_file"

type_synonym walk = "(string \<times> string list) list"

record manifest_row =
  ticker :: string
  relative_path :: string
  status :: string
  rows :: nat
  start_date :: string
  end_date :: string
  filesize_bytes :: nat

datatype run_error = OSError | ValueError | TypeError | SystemExit

definition relpath :: "string \<Rightarrow> string \<Rightarrow> string" where
  "relpath dirpath fn = (if dirpath = [] then fn else dirpath @ ''/'' @ fn)"

definition backslash_to_slash :: "string \<Rightarrow> string" where
  "backslash_to_slash s = map (\<lambda>c. if c = char_of (92::nat) then CHR ''/'' else c) s"

text \<open>
  The alias lookup \<^verbatim>\<open>it.get("tradeDate") or it.get("d") or it.get("date")\<close>.
\<close>

definition trade_date_field :: "(string \<times> json) list \<Rightarrow> json" where
  "trade_date_field it =
     py_or (py_or (dict_get it ''tradeDate'') (dict_get it ''d'')) (dict_get it ''date'')"

text \<open>
  One pass of the date loop (lines 73 to 82): a record that is no dict is skipped, so is
  one whose lookup gives \<^verbatim>\<open>None\<close>, and so is one whose conversion raises.
\<close>

fun record_date :: "json \<Rightarrow> date option" where
  "record_date (JDict it) =
     (let td = trade_date_field it
      in if td = JNull then None
         else (case py_int td of None \<Rightarrow> None | Some ms \<Rightarrow> ms_to_date ms))"
| "record_date _ = None"

definition extract_dates :: "json list \<Rightarrow> date list" where
  "extract_dates v = List.map_filter record_date v"

text \<open>The list rule (lines 67 to 85, and again 91 to 107): status, rows, start, end.\<close>

definition summarize_list :: "json list \<Rightarrow> string \<times> nat \<times> string \<times> string" where
  "summarize_list v =
     (let recs = length v
      in if recs = 0 then (''empty_array'', recs, [], [])
         else (let dates = extract_dates v
               in if dates \<noteq> []
                  then (''has_data'', recs, isoformat (Min (set dates)), isoformat (Max (set dates)))
                  else (''has_data'', recs, [], [])))"

text \<open>The first list among \<^verbatim>\<open>j.values()\<close>, in insertion order.\<close>

fun first_list :: "(string \<times> json) list \<Rightarrow> json list option" where
  "first_list [] = None"
| "first_list ((k, JList v) # kvs) = Some v"
| "first_list (kv # kvs) = first_list kvs"

text \<open>
  Lines 50 to 62: \<open>j\<close> is the parsed text, or the parsed bracket substring when the text
  does not parse and holds both brackets, or \<^verbatim>\<open>None\<close>.
\<close>

definition parse_text :: "(string \<Rightarrow> json option) \<Rightarrow> string \<Rightarrow> json" where
  "parse_text loads txt =
     (case loads txt of
        Some j \<Rightarrow> j
      | None \<Rightarrow>
          if CHR ''['' \<in> set txt \<and> CHR '']'' \<in> set txt
          then (let start = str_find (CHR ''['') txt;
                    end = str_rfind (CHR '']'') txt + 1
                in case loads (py_slice txt start end) of Some j \<Rightarrow> j | None \<Rightarrow> JNull)
          else JNull)"

definition shape_analysis :: "json \<Rightarrow> string \<times> nat \<times> string \<times> string" where
  "shape_analysis j =
     (case j of
        JNull \<Rightarrow> (''invalid_json'', 0, [], [])
      | JList v \<Rightarrow> summarize_list v
      | JDict kvs \<Rightarrow>
          (case first_list kvs of
             Some v \<Rightarrow> summarize_list v
           | None \<Rightarrow> (''invalid_json'', 0, [], []))
      | _ \<Rightarrow> (''invalid_json'', 0, [], []))"

text \<open>
  The body of the \<^verbatim>\<open>try\<close> of lines 40 to 115 for one file of size \<open>sz\<close>; an exception
  of \<^verbatim>\<open>open\<close> or \<^verbatim>\<open>read\<close> leaves the initial counters and gives status \<^verbatim>\<open>error\<close>.
\<close>

definition classify_file ::
  "(string \<Rightarrow> json option) \<Rightarrow> nat \<Rightarrow> string option \<Rightarrow> string \<times> nat \<times> string \<times> string" where
  "classify_file loads sz content =
     (if sz = 0 then (''empty_file'', 0, [], [])
      else (case content of
              None \<Rightarrow> (''error'', 0, [], [])
            | Some raw \<Rightarrow>
                (let txt = strip raw
                 in if txt = [] then (''empty_file'', 0, [], [])
                    else shape_analysis (parse_text loads txt))))"

text \<open>
  The inner loop over the sorted file names of one directory. \<^verbatim>\<open>os.path.getsize\<close> is
  called before the \<^verbatim>\<open>try\<close> (line 35): when it raises, the run ends there.
\<close>

fun classify_dir ::
  "(string \<Rightarrow> json option) \<Rightarrow> raw_store \<Rightarrow> string \<Rightarrow> string list \<Rightarrow> run_error + manifest_row list" where
  "classify_dir loads fs dirpath [] = Inr []"
| "classify_dir loads fs dirpath (fn # fns) =
     (if \<not> has_raw_ext fn then classify_dir loads fs dirpath fns
      else (let full = relpath dirpath fn; rel = backslash_to_slash full
            in case getsize (fs full) of
                 None \<Rightarrow> Inl OSError
               | Some sz \<Rightarrow>
                   (case classify_file loads sz (read_text (fs full)) of
                      (st, recs, sd, ed) \<Rightarrow>
                        (case classify_dir loads fs dirpath fns of
                           Inl e \<Rightarrow> Inl e
                         | Inr rest \<Rightarrow>
                             Inr (\<lparr>ticker = splitext_root fn, relative_path = rel, status = st,
                                   rows = recs, start_date = sd, end_date = ed,
                                   filesize_bytes = sz\<rparr> # rest)))))"

text \<open>
  \<^verbatim>\<open>classify_and_summarize\<close>: the rows of the manifest, in the order they are written.
\<close>

fun classify_and_summarize ::
  "(string \<Rightarrow> json option) \<Rightarrow> raw_store \<Rightarrow> walk \<Rightarrow> run_error + manifest_row list" where
  "classify_and_summarize loads fs [] = Inr []"
| "classify_and_summarize loads fs ((dirpath, files) # dirs) =
     (case classify_dir loads fs dirpath (sort files) of
        Inl e \<Rightarrow> Inl e
      | Inr rs \<Rightarrow>
          (case classify_and_summarize loads fs dirs of
             Inl e \<Rightarrow> Inl e
           | Inr rest \<Rightarrow> Inr (rs @ rest)))"

section \<open>The normalizer\<close>

text \<open>
  A line of the manifest as \<^verbatim>\<open>csv.DictReader\<close> gives it back: every field is a string,
  and a field the line lacks reads as empty.
\<close>

record manifest_line =
  r_ticker :: string
  r_relative_path :: string
  r_status :: string
  r_rows :: string
  r_start_date :: string
  r_end_date :: string

text \<open>
  One canonical row. Before coercion every cell but the first two holds the Python
  object read from the record; after coercion the price cells hold floats, \<open>NaN\<close> being
  the null of pandas, and the volume cells hold nullable integers. The date cell is a
  string in the normalizer and a date once the assembler has parsed it.
\<close>

record ('d, 'f, 'i) canon_row =
  c_ticker :: string
  c_trade_date :: 'd
  c_open :: 'f
  c_high :: 'f
  c_low :: 'f
  c_close :: 'f
  c_turnover :: 'f
  c_share_volume :: 'i
  c_trade_volume :: 'i

type_synonym raw_row = "(string, json, json) canon_row"

type_synonym csv_row = "(string, pyfloat, int option) canon_row"

text \<open>
  Line 167: the date cell is the ISO date of the alias lookup, and empty when the lookup
  is falsy or the conversion raises.
\<close>

definition row_trade_date :: "(string \<times> json) list \<Rightarrow> string" where
  "row_trade_date it =
     (let td = trade_date_field it
      in if truthy td
         then (case py_int td of
                 None \<Rightarrow> []
               | Some ms \<Rightarrow> (case ms_to_date ms of None \<Rightarrow> [] | Some d \<Rightarrow> isoformat d))
         else [])"

text \<open>Line 174: \<^verbatim>\<open>close\<close> when it is not \<^verbatim>\<open>None\<close>, else \<^verbatim>\<open>it.get("v") or None\<close>.\<close>

definition row_close :: "(string \<times> json) list \<Rightarrow> json" where
  "row_close it =
     (if dict_get it ''close'' \<noteq> JNull then dict_get it ''close''
      else py_or (dict_get it ''v'') JNull)"

definition build_row :: "string \<Rightarrow> (string \<times> json) list \<Rightarrow> raw_row" where
  "build_row tk it =
     \<lparr>c_ticker = tk,
      c_trade_date = row_trade_date it,
      c_open = (if dict_get it ''open'' \<noteq> JNull then dict_get it ''open'' else JNull),
      c_high = (if dict_get it ''high'' \<noteq> JNull then dict_get it ''high'' else JNull),
      c_low = (if dict_get it ''low'' \<noteq> JNull then dict_get it ''low'' else JNull),
      c_close = row_close it,
      c_turnover = dict_get it ''turnover'',
      c_share_volume = py_or (dict_get it ''shareVolume'') (dict_get it ''shareVolume''),
      c_trade_volume = py_or (dict_get it ''tradeVolume'') (dict_get it ''tradeVolume'')\<rparr>"

text \<open>Lines 161 to 188: one row for each record that is a dict.\<close>

fun build_rows :: "string \<Rightarrow> json list \<Rightarrow> raw_row list" where
  "build_rows tk [] = []"
| "build_rows tk (JDict it # its) = build_row tk it # build_rows tk its"
| "build_rows tk (x # its) = build_rows tk its"

text \<open>\<^verbatim>\<open>Series.isnull()\<close> on a cell that holds a Python object: \<^verbatim>\<open>None\<close> and \<^verbatim>\<open>NaN\<close>.\<close>

definition pd_isnull :: "json \<Rightarrow> bool" where
  "pd_isnull v = (v = JNull \<or> v = JFloat NaN)"

text \<open>Lines 194 and 195.\<close>

definition filter_rows :: "raw_row list \<Rightarrow> raw_row list" where
  "filter_rows rs =
     filter (\<lambda>r. \<not> pd_isnull (c_close r)) (filter (\<lambda>r. c_trade_date r \<noteq> []) rs)"

text \<open>
  A string cell under \<^verbatim>\<open>pd.to_numeric(errors="coerce")\<close>: a decimal literal with an
  optional sign, fraction and exponent, blanks around it allowed, or an infinity;
  anything else becomes \<open>NaN\<close>.
\<close>

definition ascii_space :: "char \<Rightarrow> bool" where
  "ascii_space c = (let n = (of_char c :: nat) in (9 \<le> n \<and> n \<le> 13) \<or> n = 32)"

definition digits_value :: "string \<Rightarrow> int" where
  "digits_value ds = foldl (\<lambda>a c. a * 10 + digit_val c) 0 ds"

definition split_sign :: "string \<Rightarrow> bool \<times> string" where
  "split_sign s =
     (case s of
        [] \<Rightarrow> (False, [])
      | c # cs \<Rightarrow>
          if c = CHR ''-'' then (True, cs) else if c = CHR ''+'' then (False, cs) else (False, s))"

definition unsigned_decimal :: "string \<Rightarrow> rat option" where
  "unsigned_decimal s =
     (let ip = takeWhile is_digit s;
          r1 = dropWhile is_digit s;
          fr = (case r1 of
                  [] \<Rightarrow> ([], [])
                | c # r \<Rightarrow>
                    if c = CHR ''.'' then (takeWhile is_digit r, dropWhile is_digit r)
                    else ([], r1));
          fp = fst fr;
          r2 = snd fr
      in if ip = [] \<and> fp = [] then None
         else (let mant = (of_int (digits_value (ip @ fp)) :: rat) / 10 ^ length fp
               in case r2 of
                    [] \<Rightarrow> Some mant
                  | e # r \<Rightarrow>
                      if e = CHR ''e'' \<or> e = CHR ''E''
                      then (let sg = split_sign r; ds = snd sg
                            in if ds \<noteq> [] \<and> list_all is_digit ds
                               then Some (if fst sg then mant / 10 ^ nat (digits_value ds)
                                          else mant * 10 ^ nat (digits_value ds))
                               else None)
                      else None))"

definition str_to_float :: "string \<Rightarrow> pyfloat" where
  "str_to_float s =
     (let t = rev (dropWhile ascii_space (rev (dropWhile ascii_space s)));
          sg = split_sign t;
          body = map lower_char (snd sg)
      in if body = ''inf'' \<or> body = ''infinity'' then (if fst sg then NegInf else PosInf)
         else (case unsigned_decimal (snd sg) of
                 None \<Rightarrow> NaN
               | Some r \<Rightarrow> Finite (if fst sg then - r else r)))"

text \<open>
  \<^verbatim>\<open>pd.to_numeric(errors="coerce")\<close> on one cell: numbers stay, a bool counts as 0 or
  1, a string is parsed, and \<^verbatim>\<open>None\<close>, a list, a dict and an unparseable string become
  \<open>NaN\<close>.
\<close>

fun to_numeric :: "json \<Rightarrow> pyfloat" where
  "to_numeric JNull = NaN"
| "to_numeric (JBool b) = Finite (if b then 1 else 0)"
| "to_numeric (JInt i) = Finite (of_int i)"
| "to_numeric (JFloat f) = f"
| "to_numeric (JStr s) = str_to_float s"
| "to_numeric (JList xs) = NaN"
| "to_numeric (JDict kvs) = NaN"

text \<open>
  \<^verbatim>\<open>.astype("Int64")\<close> on one coerced cell: \<open>NaN\<close> becomes the missing value, a whole
  number that fits 64 bits stays, and anything else raises \<^verbatim>\<open>TypeError\<close> (\<open>None\<close>).
\<close>

fun astype_Int64 :: "pyfloat \<Rightarrow> int option option" where
  "astype_Int64 NaN = Some None"
| "astype_Int64 (Finite r) =
     (if r = of_int \<lfloor>r\<rfloor> \<and> - (2 ^ 63) \<le> \<lfloor>r\<rfloor> \<and> \<lfloor>r\<rfloor> < 2 ^ 63 then Some (Some \<lfloor>r\<rfloor>) else None)"
| "astype_Int64 PosInf = None"
| "astype_Int64 NegInf = None"

text \<open>Lines 197 to 200 on one row; \<open>None\<close> when a volume cell cannot be cast.\<close>

definition coerce_row :: "raw_row \<Rightarrow> csv_row option" where
  "coerce_row r =
     (case astype_Int64 (to_numeric (c_share_volume r)) of
        None \<Rightarrow> None
      | Some sv \<Rightarrow>
          (case astype_Int64 (to_numeric (c_trade_volume r)) of
             None \<Rightarrow> None
           | Some tv \<Rightarrow>
               Some \<lparr>c_ticker = c_ticker r,
                     c_trade_date = c_trade_date r,
                     c_open = to_numeric (c_open r),
                     c_high = to_numeric (c_high r),
                     c_low = to_numeric (c_low r),
                     c_close = to_numeric (c_close r),
                     c_turnover = to_numeric (c_turnover r),
                     c_share_volume = sv,
                     c_trade_volume = tv\<rparr>))"

fun coerce_rows :: "raw_row list \<Rightarrow> csv_row list option" where
  "coerce_rows [] = Some []"
| "coerce_rows (r # rs) =
     (case coerce_row r of
        None \<Rightarrow> None
      | Some c \<Rightarrow> (case coerce_rows rs of None \<Rightarrow> None | Some cs \<Rightarrow> Some (c # cs)))"

text \<open>
  Lines 192 to 203 for the rows built from one file: the table that \<^verbatim>\<open>to_csv\<close> writes,
  sorted on the date cell. The order among rows of one date is the sort's own and nothing
  below depends on it.
\<close>

definition normalized_table :: "raw_row list \<Rightarrow> csv_row list option" where
  "normalized_table rs =
     (case coerce_rows (filter_rows rs) of
        None \<Rightarrow> None
      | Some df \<Rightarrow> Some (sort_key c_trade_date df))"

text \<open>Lines 150 to 157: the record list of a parsed document.\<close>

definition find_records :: "json \<Rightarrow> json list option" where
  "find_records j =
     (case j of JList v \<Rightarrow> Some v | JDict kvs \<Rightarrow> first_list kvs | _ \<Rightarrow> None)"

text \<open>
  The state of the loop of \<^verbatim>\<open>normalize_has_data\<close>: the variable \<^verbatim>\<open>content\<close>, which keeps
  the text of the last file that could be read, the files under the normalized
  directory by ticker, and the lines printed.
\<close>

datatype message =
    Skip_parse string
  | Skip_no_list string
  | No_rows string
  | Wrote string nat

record norm_state =
  content :: "string option"
  normalized :: "string \<Rightarrow> csv_row list option"
  printed :: "message list"

text \<open>
  Lines 142 to 148: the bracket substring of \<^verbatim>\<open>content\<close>. There is no test for the
  brackets here, so an index may be \<open>-1\<close>; an unbound \<^verbatim>\<open>content\<close> raises too.
\<close>

definition salvage :: "(string \<Rightarrow> json option) \<Rightarrow> string option \<Rightarrow> json option" where
  "salvage loads c =
     (case c of
        None \<Rightarrow> None
      | Some txt \<Rightarrow>
          (let s = str_find (CHR ''['') txt;
               e = str_rfind (CHR '']'') txt + 1
           in loads (py_slice txt s e)))"

text \<open>
  Lines 136 to 148: \<open>rd\<close> is \<^verbatim>\<open>open(raw_path).read()\<close>, \<open>None\<close> when it raises. The
  result is the new value of \<^verbatim>\<open>content\<close> and the parsed document, if any.
\<close>

definition load_raw ::
  "(string \<Rightarrow> json option) \<Rightarrow> string option \<Rightarrow> string option \<Rightarrow> string option \<times> json option" where
  "load_raw loads old rd =
     (case rd of
        None \<Rightarrow> (old, salvage loads old)
      | Some txt \<Rightarrow>
          (case loads txt of
             Some j \<Rightarrow> (Some txt, Some j)
           | None \<Rightarrow> (Some txt, salvage loads (Some txt))))"

text \<open>
  One pass of the loop of \<^verbatim>\<open>normalize_has_data\<close> (lines 130 to 204). \<open>Inl\<close> is the
  exception that leaves the function.
\<close>

definition normalize_entry ::
  "(string \<Rightarrow> json option) \<Rightarrow> (string \<Rightarrow> string option) \<Rightarrow> norm_state \<Rightarrow> manifest_line
     \<Rightarrow> run_error + norm_state" where
  "normalize_entry loads rd st r =
     (if r_status r \<noteq> ''has_data'' then Inr st
      else (let raw_path = r_relative_path r;
                tk = r_ticker r;
                lr = load_raw loads (content st) (rd raw_path);
                st1 = st\<lparr>content := fst lr\<rparr>
            in case snd lr of
                 None \<Rightarrow> Inr (st1\<lparr>printed := printed st1 @ [Skip_parse raw_path]\<rparr>)
               | Some j \<Rightarrow>
                   (case find_records j of
                      None \<Rightarrow> Inr (st1\<lparr>printed := printed st1 @ [Skip_no_list raw_path]\<rparr>)
                    | Some records \<Rightarrow>
                        (let rws = build_rows tk records
                         in if rws = [] then Inr (st1\<lparr>printed := printed st1 @ [No_rows tk]\<rparr>)
                            else (case normalized_table rws of
                                    None \<Rightarrow> Inl TypeError
                                  | Some df \<Rightarrow>
                                      Inr (st1\<lparr>normalized := (normalized st1)(tk \<mapsto> df),
                                               printed := printed st1 @ [Wrote tk (length df)]\<rparr>))))))"

fun normalize_has_data ::
  "(string \<Rightarrow> json option) \<Rightarrow> (string \<Rightarrow> string option) \<Rightarrow> norm_state \<Rightarrow> manifest_line list
     \<Rightarrow> run_error + norm_state" where
  "normalize_has_data loads rd st [] = Inr st"
| "normalize_has_data loads rd st (r # rs) =
     (case normalize_entry loads rd st r of
        Inl e \<Rightarrow> Inl e
      | Inr st' \<Rightarrow> normalize_has_data loads rd st' rs)"

section \<open>The manifest file\<close>




section \<open>The ticker selector\<close>

text \<open>
  \<^verbatim>\<open>datetime.fromisoformat\<close> is a parameter: \<open>None\<close> when it raises. \<^verbatim>\<open>parse_date\<close>
  gives \<^verbatim>\<open>None\<close> for an empty field without calling it.
\<close>

definition parse_date :: "(string \<Rightarrow> date option) \<Rightarrow> string \<Rightarrow> date option" where
  "parse_date fromisoformat s = (if s = [] then None else fromisoformat s)"

record ticker_row =
  s_ticker :: string
  s_relative_path :: string
  s_rows :: int
  s_start_date :: string
  s_end_date :: string
  s_include :: string

text \<open>\<^verbatim>\<open>int(r.get("rows") or 0)\<close>: an empty field counts as 0; \<open>None\<close> is \<^verbatim>\<open>ValueError\<close>.\<close>

definition rows_count_of :: "manifest_line \<Rightarrow> int option" where
  "rows_count_of r = (if r_rows r = [] then Some 0 else py_int_str (r_rows r))"

text \<open>
  Lines 42 to 51: the flag starts true and each of the three tests may clear it. A date is
  always truthy; \<^verbatim>\<open>max_missing_days\<close> is truthy when it is given and not 0.
\<close>

definition include_flag ::
  "int \<Rightarrow> date option \<Rightarrow> int option \<Rightarrow> int \<Rightarrow> date option \<Rightarrow> date option \<Rightarrow> bool" where
  "include_flag min_rows min_start max_missing_days rows_count sd ed =
     (let include = True;
          include = (if rows_count < min_rows then False else include);
          include = (case min_start of
                       None \<Rightarrow> include
                     | Some ms \<Rightarrow>
                         (case sd of
                            None \<Rightarrow> False
                          | Some s \<Rightarrow> if s > ms then False else include));
          include = (case max_missing_days of
                       None \<Rightarrow> include
                     | Some m \<Rightarrow>
                         if m \<noteq> 0
                         then (case sd of
                                 None \<Rightarrow> include
                               | Some s \<Rightarrow>
                                   (case ed of
                                      None \<Rightarrow> include
                                    | Some e \<Rightarrow> if e - s < m then False else include))
                         else include)
      in include)"

definition iso_or_empty :: "date option \<Rightarrow> string" where
  "iso_or_empty d = (case d of None \<Rightarrow> [] | Some x \<Rightarrow> isoformat x)"

text \<open>Lines 34 to 59: the loop over the manifest lines.\<close>

fun select_rows ::
  "(string \<Rightarrow> date option) \<Rightarrow> int \<Rightarrow> date option \<Rightarrow> int option \<Rightarrow> manifest_line list
     \<Rightarrow> run_error + ticker_row list" where
  "select_rows fromisoformat min_rows min_start max_missing_days [] = Inr []"
| "select_rows fromisoformat min_rows min_start max_missing_days (r # rs) =
     (if r_status r \<noteq> ''has_data''
      then select_rows fromisoformat min_rows min_start max_missing_days rs
      else (case rows_count_of r of
              None \<Rightarrow> Inl ValueError
            | Some rows_count \<Rightarrow>
                (let sd = parse_date fromisoformat (r_start_date r);
                     ed = parse_date fromisoformat (r_end_date r);
                     include = include_flag min_rows min_start max_missing_days rows_count sd ed;
                     row = \<lparr>s_ticker = r_ticker r,
                            s_relative_path = r_relative_path r,
                            s_rows = rows_count,
                            s_start_date = iso_or_empty sd,
                            s_end_date = iso_or_empty ed,
                            s_include = (if include then ''yes'' else ''no'')\<rparr>
                 in case select_rows fromisoformat min_rows min_start max_missing_days rs of
                      Inl e \<Rightarrow> Inl e
                    | Inr rest \<Rightarrow> Inr (row # rest))))"

text \<open>
  \<^verbatim>\<open>main\<close> of the selector: the manifest may be missing (\<open>None\<close>); the result is the list
  of lines written after the header, sorted on \<^verbatim>\<open>(-rows, ticker)\<close> by a stable sort.
\<close>

definition select_tickers_main ::
  "(string \<Rightarrow> date option) \<Rightarrow> int \<Rightarrow> date option \<Rightarrow> int option \<Rightarrow> manifest_line list option
     \<Rightarrow> run_error + ticker_row list" where
  "select_tickers_main fromisoformat min_rows min_start max_missing_days manifest =
     (case manifest of
        None \<Rightarrow> Inl SystemExit
      | Some lines \<Rightarrow>
          (case select_rows fromisoformat min_rows min_start max_missing_days lines of
             Inl e \<Rightarrow> Inl e
           | Inr rs \<Rightarrow> Inr (sort_key (\<lambda>x. (- s_rows x, s_ticker x)) rs)))"

section \<open>The assembler\<close>

text \<open>
  A canonical CSV as \<^verbatim>\<open>pd.read_csv(path, parse_dates=["trade_date"])\<close> returns it: its
  rows, with the date cell parsed. \<open>normal tk = None\<close> when the file of ticker \<open>tk\<close> does
  not exist. A file that holds the header and no row reads as the empty table.
\<close>

type_synonym panel_row = "(date, pyfloat, int option) canon_row"

text \<open>
  Lines 18 to 33: the tables read, in order, and the tickers warned about. Line 26 writes
  the ticker into every row.
\<close>

fun read_parts ::
  "(string \<Rightarrow> panel_row list option) \<Rightarrow> string list \<Rightarrow> panel_row list list \<times> string list" where
  "read_parts normal [] = ([], [])"
| "read_parts normal (tk # tks) =
     (case read_parts normal tks of
        (parts, warned) \<Rightarrow>
          (case normal tk of
             None \<Rightarrow> (parts, tk # warned)
           | Some df \<Rightarrow> (map (\<lambda>r. r\<lparr>c_ticker := tk\<rparr>) df # parts, warned)))"

text \<open>
  \<^verbatim>\<open>assemble\<close>: \<^verbatim>\<open>SystemExit\<close> when no table was read, else the panel written and the
  warnings printed.
\<close>

definition assemble ::
  "(string \<Rightarrow> panel_row list option) \<Rightarrow> string list \<Rightarrow> run_error + panel_row list \<times> string list" where
  "assemble normal tickers =
     (case read_parts normal tickers of
        (parts, warned) \<Rightarrow>
          if parts = [] then Inl SystemExit
          else Inr (sort_key (\<lambda>r. (c_ticker r, c_trade_date r)) (concat parts), warned))"

section \<open>The daily returns\<close>

text \<open>
  A cell of a \<^verbatim>\<open>float64\<close> column: a number, the null of pandas (\<open>NaN\<close>), or one of the two
  infinities. The arithmetic below is the arithmetic of floats with the rounding left
  out: numbers are reals, no operation overflows, and there is one zero, which divides
  as the positive zero does.
\<close>

datatype float64 = Val real | Null | PlusInf | MinusInf

fun of_pyfloat :: "pyfloat \<Rightarrow> float64" where
  "of_pyfloat (Finite r) = Val (of_rat r)"
| "of_pyfloat NaN = Null"
| "of_pyfloat PosInf = PlusInf"
| "of_pyfloat NegInf = MinusInf"

text \<open>\<^verbatim>\<open>a / b\<close> on two cells.\<close>

fun fdiv :: "float64 \<Rightarrow> float64 \<Rightarrow> float64" where
  "fdiv (Val a) (Val b) =
     (if b \<noteq> 0 then Val (a / b)
      else if a = 0 then Null
      else if 0 < a then PlusInf else MinusInf)"
| "fdiv (Val a) PlusInf = Val 0"
| "fdiv (Val a) MinusInf = Val 0"
| "fdiv PlusInf (Val b) = (if 0 \<le> b then PlusInf else MinusInf)"
| "fdiv MinusInf (Val b) = (if 0 \<le> b then MinusInf else PlusInf)"
| "fdiv Null b = Null"
| "fdiv a Null = Null"
| "fdiv PlusInf b = Null"
| "fdiv MinusInf b = Null"

text \<open>\<^verbatim>\<open>a - 1\<close> on a cell.\<close>

fun minus_one :: "float64 \<Rightarrow> float64" where
  "minus_one (Val a) = Val (a - 1)"
| "minus_one x = x"

text \<open>\<^verbatim>\<open>np.log\<close> on a cell: minus infinity at 0 and null below it.\<close>

fun np_log :: "float64 \<Rightarrow> float64" where
  "np_log (Val a) = (if 0 < a then Val (ln a) else if a = 0 then MinusInf else Null)"
| "np_log PlusInf = PlusInf"
| "np_log x = Null"

text \<open>\<^verbatim>\<open>.replace([np.inf, -np.inf], np.nan)\<close> on a cell.\<close>

fun replace_inf :: "float64 \<Rightarrow> float64" where
  "replace_inf PlusInf = Null"
| "replace_inf MinusInf = Null"
| "replace_inf x = x"

text \<open>\<^verbatim>\<open>.shift(1)\<close> on a column: every cell moves down one row and the first is null.\<close>

definition shift_one :: "float64 list \<Rightarrow> float64 list" where
  "shift_one xs = take (length xs) (Null # xs)"

text \<open>
  \<^verbatim>\<open>fillna(method="pad")\<close>: a null cell takes the last cell before it that is not null,
  and stays null when there is none.
\<close>

fun pad_from :: "float64 \<Rightarrow> float64 list \<Rightarrow> float64 list" where
  "pad_from l [] = []"
| "pad_from l (x # xs) = (if x = Null then l # pad_from l xs else x # pad_from x xs)"

text \<open>
  \<^verbatim>\<open>Series.pct_change()\<close> with no argument, as line 14 calls it. What it does with null
  cells is the library's default \<^verbatim>\<open>fill_method\<close> and differs between releases: before
  pandas 3.0 the default is \<^verbatim>\<open>pad\<close>, and the column is filled forward before the change
  is taken; from 3.0 on nothing is filled. \<open>fill\<close> says which of the two the installed
  library does. The change itself is \<^verbatim>\<open>data / data.shift(1) - 1\<close>.
\<close>

definition pct_change :: "bool \<Rightarrow> float64 list \<Rightarrow> float64 list" where
  "pct_change fill xs =
     (let data = (if fill then pad_from Null xs else xs)
      in map2 (\<lambda>c p. minus_one (fdiv c p)) data (shift_one data))"

record returns_row =
  p_row :: panel_row
  close_pct_return :: float64
  close_log_return :: float64

text \<open>
  \<^verbatim>\<open>make_returns\<close> (lines 12 to 20) on the rows of one ticker. The sort on the date is
  written as a stable sort; pandas does not promise an order among rows of one date.
\<close>

definition make_returns :: "bool \<Rightarrow> panel_row list \<Rightarrow> returns_row list" where
  "make_returns fill g0 =
     (let g = sort_key c_trade_date g0;
          close = map (\<lambda>r. of_pyfloat (c_close r)) g;
          pct = pct_change fill close;
          previouse_close = shift_one close;
          ratio = map2 fdiv close previouse_close;
          log_return = map np_log ratio;
          safe_log_return = map replace_inf log_return
      in map (\<lambda>(r, p, l). \<lparr>p_row = r, close_pct_return = p, close_log_return = l\<rparr>)
           (zip g (zip pct safe_log_return)))"

text \<open>
  Line 21: \<^verbatim>\<open>groupby("ticker").apply(make_returns)\<close> calls \<^verbatim>\<open>make_returns\<close> on the rows of
  each ticker, in the order they have in the panel.
\<close>

definition ticker_returns :: "bool \<Rightarrow> panel_row list \<Rightarrow> string \<Rightarrow> returns_row list" where
  "ticker_returns fill df tk = make_returns fill (filter (\<lambda>r. c_ticker r = tk) df)"

section \<open>Example inputs\<close>

text \<open>
  A raw store whose file \<^verbatim>\<open>b.json\<close> is a dangling symbolic link: \<^verbatim>\<open>os.walk\<close> lists it
  among the files, and \<^verbatim>\<open>os.path.getsize\<close> and \<^verbatim>\<open>open\<close> raise on it. Every other file
  holds the two characters of an empty list.
\<close>

definition dangling_store :: raw_store where
  "dangling_store p =
     (if p = ''b.json'' then \<lparr>getsize = None, read_text = None\<rparr>
      else \<lparr>getsize = Some 2, read_text = Some ''[]''\<rparr>)"

text \<open>
  A stand-in for \<^verbatim>\<open>json.loads\<close> that knows four documents and raises on every other text.
\<close>

definition example_loads :: "string \<Rightarrow> json option" where
  "example_loads s =
     (if s = ''[7]'' then Some (JList [JInt 7])
      else if s = ''[]'' then Some (JList [])
      else if s = ''{}'' then Some (JDict [])
      else if s = ''null'' then Some JNull
      else None)"

text \<open>
  A record whose \<^verbatim>\<open>tradeDate\<close> is 0 and whose \<^verbatim>\<open>d\<close> is two days later, and a parser that
  gives the list of that one record for the text \<^verbatim>\<open>[A]\<close>.
\<close>

definition zero_date_record :: json where
  "zero_date_record = JDict [(''tradeDate'', JInt 0), (''d'', JInt 172800000)]"

definition zero_date_loads :: "string \<Rightarrow> json option" where
  "zero_date_loads s = (if s = ''[A]'' then Some (JList [zero_date_record]) else None)"

text \<open>
  Two raw files and the manifest lines that name them. \<^verbatim>\<open>t.json\<close> holds one record with
  a date and the close \<^verbatim>\<open>"abc"\<close>; \<^verbatim>\<open>u.json\<close> holds one record with a close and no date.
  The parser knows the two texts.
\<close>

definition text_close_record :: json where
  "text_close_record = JDict [(''date'', JInt 86400000), (''close'', JStr ''abc'')]"

definition undated_record :: json where
  "undated_record = JDict [(''close'', JInt 5)]"

definition normalizer_loads :: "string \<Rightarrow> json option" where
  "normalizer_loads s =
     (if s = ''[B]'' then Some (JList [text_close_record])
      else if s = ''[C]'' then Some (JList [undated_record])
      else if s = ''[D]'' then Some (JList [JInt 1, JStr ''x''])
      else None)"

definition normalizer_store :: "string \<Rightarrow> string option" where
  "normalizer_store p =
     (if p = ''t.json'' then Some ''[B]''
      else if p = ''u.json'' then Some ''[C]''
      else if p = ''w.json'' then Some ''[D]''
      else None)"

definition line_for :: "string \<Rightarrow> string \<Rightarrow> manifest_line" where
  "line_for tk p =
     \<lparr>r_ticker = tk, r_relative_path = p, r_status = ''has_data'', r_rows = ''1'',
      r_start_date = [], r_end_date = []\<rparr>"


text \<open>
  A store of one file that holds the text \<^verbatim>\<open>[A]\<close>, and a listing of it.
\<close>

definition zero_date_store :: raw_store where
  "zero_date_store p = \<lparr>getsize = Some 3, read_text = Some ''[A]''\<rparr>"

definition zero_date_walk :: walk where
  "zero_date_walk = [([], [''z.json''])]"

text \<open>
  A store with one file for each branch of the decision tree, in two directories, and
  its listing, which also names a file that the classifier does not scan.
\<close>

definition tree_store :: raw_store where
  "tree_store p =
     (if p = ''a.json'' then \<lparr>getsize = Some 9, read_text = Some '' x[7]y ''\<rparr>
      else if p = ''b.json''
        then \<lparr>getsize = Some 3, read_text = Some [CHR 0x20, CHR 0x0A, CHR 0x09]\<rparr>
      else if p = ''sub/c.txt'' then \<lparr>getsize = Some 2, read_text = Some ''{}''\<rparr>
      else if p = ''sub/d.JSON'' then \<lparr>getsize = Some 2, read_text = Some ''[]''\<rparr>
      else if p = ''sub/e.json'' then \<lparr>getsize = Some 5, read_text = None\<rparr>
      else \<lparr>getsize = Some 0, read_text = Some []\<rparr>)"

definition tree_walk :: walk where
  "tree_walk =
     [([], [''b.json'', ''a.json'', ''notes.md'']),
      (''sub'', [''e.json'', ''d.JSON'', ''c.txt'', ''f.json''])]"
section \<open>The classification rules in the words of the specification\<close>

text \<open>
  The decision tree as the specification words it, written without the index
  arithmetic of the code: whitespace-only content, the substring between the first
  opening and the last closing bracket, and the first list-valued field of a dict.
\<close>

definition whitespace_only :: "string \<Rightarrow> bool" where
  "whitespace_only s = list_all py_isspace s"

definition bracket_substring :: "string \<Rightarrow> string option" where
  "bracket_substring txt =
     (if CHR ''['' \<in> set txt \<and> CHR '']'' \<in> set txt
      then Some (rev (dropWhile (\<lambda>c. c \<noteq> CHR '']'') (rev (dropWhile (\<lambda>c. c \<noteq> CHR ''['') txt))))
      else None)"

definition spec_parse :: "(string \<Rightarrow> json option) \<Rightarrow> string \<Rightarrow> json option" where
  "spec_parse loads txt =
     (case loads txt of
        Some j \<Rightarrow> Some j
      | None \<Rightarrow> (case bracket_substring txt of None \<Rightarrow> None | Some sub \<Rightarrow> loads sub))"

fun is_list_value :: "json \<Rightarrow> bool" where
  "is_list_value (JList v) = True"
| "is_list_value j = False"

definition spec_record_list :: "json \<Rightarrow> json list option" where
  "spec_record_list j =
     (case j of
        JList v \<Rightarrow> Some v
      | JDict kvs \<Rightarrow>
          (case filter is_list_value (map snd kvs) of
             JList v # rest \<Rightarrow> Some v
           | _ \<Rightarrow> None)
      | _ \<Rightarrow> None)"

definition spec_status :: "(string \<Rightarrow> json option) \<Rightarrow> nat \<Rightarrow> string option \<Rightarrow> string" where
  "spec_status loads sz cont =
     (if sz = 0 then ''empty_file''
      else (case cont of
              None \<Rightarrow> ''error''
            | Some raw \<Rightarrow>
                if whitespace_only raw then ''empty_file''
                else (case spec_parse loads (strip raw) of
                        None \<Rightarrow> ''invalid_json''
                      | Some j \<Rightarrow>
                          (case spec_record_list j of
                             None \<Rightarrow> ''invalid_json''
                           | Some v \<Rightarrow> if length v = 0 then ''empty_array'' else ''has_data''))))"

text \<open>
  The dates of a record list in the words of the specification. The value of the date
  field is chosen among the three aliases, read as epoch milliseconds, and a record
  that is no mapping, has no value or no convertible value gives no date.
  \<open>first_present_alias\<close> is the reading of the claim, the first alias the record holds;
  \<open>first_truthy_alias\<close> is the first alias whose value is truthy, and the value of
  \<^verbatim>\<open>date\<close> when none is.
\<close>

definition alias_values :: "(string \<times> json) list \<Rightarrow> json list" where
  "alias_values it = map (dict_get it) [''tradeDate'', ''d'', ''date'']"

definition first_present_alias :: "(string \<times> json) list \<Rightarrow> json" where
  "first_present_alias it =
     (case filter (\<lambda>v. v \<noteq> JNull) (alias_values it) of [] \<Rightarrow> JNull | v # rest \<Rightarrow> v)"

definition first_truthy_alias :: "(string \<times> json) list \<Rightarrow> json" where
  "first_truthy_alias it =
     (case filter truthy (alias_values it) of [] \<Rightarrow> dict_get it ''date'' | v # rest \<Rightarrow> v)"

definition epoch_ms_date :: "json \<Rightarrow> date option" where
  "epoch_ms_date v = (if v = JNull then None else Option.bind (py_int v) ms_to_date)"

fun dates_by :: "((string \<times> json) list \<Rightarrow> json) \<Rightarrow> json list \<Rightarrow> date list" where
  "dates_by pick [] = []"
| "dates_by pick (JDict it # rs) =
     (case epoch_ms_date (pick it) of None \<Rightarrow> dates_by pick rs | Some d \<Rightarrow> d # dates_by pick rs)"
| "dates_by pick (r # rs) = dates_by pick rs"

definition date_range :: "date list \<Rightarrow> string \<times> string" where
  "date_range ds =
     (if ds = [] then ([], []) else (isoformat (Min (set ds)), isoformat (Max (set ds))))"


text \<open>
  The files that a run scans, by their path under the raw root and in the order of the
  manifest: directory after directory as listed, in each the names with one of the two
  suffixes, sorted. The size of a file, 0 when the query raises.
\<close>

definition scanned_paths :: "walk \<Rightarrow> string list" where
  "scanned_paths w =
     concat (map (\<lambda>(d, files). map (relpath d) (filter has_raw_ext (sort files))) w)"

definition file_size :: "raw_store \<Rightarrow> string \<Rightarrow> nat" where
  "file_size fs p = (case getsize (fs p) of None \<Rightarrow> 0 | Some n \<Rightarrow> n)"

text \<open>The records of a raw text, as the classifier finds them.\<close>

definition file_records :: "(string \<Rightarrow> json option) \<Rightarrow> string \<Rightarrow> json list option" where
  "file_records loads raw =
     (case spec_parse loads (strip raw) of None \<Rightarrow> None | Some j \<Rightarrow> spec_record_list j)"
section \<open>Reading the result of a normalizer run\<close>

text \<open>
  The state before the first manifest line: \<^verbatim>\<open>content\<close> is unbound, the normalized
  directory holds no file and nothing is printed.
\<close>

definition empty_state :: norm_state where
  "empty_state = \<lparr>content = None, normalized = (\<lambda>tk. None), printed = []\<rparr>"

text \<open>The file of a ticker and the printed lines after a run; no file when it raised.\<close>

definition written_table :: "run_error + norm_state \<Rightarrow> string \<Rightarrow> csv_row list option" where
  "written_table res tk = (case res of Inl e \<Rightarrow> None | Inr s \<Rightarrow> normalized s tk)"

definition printed_lines :: "run_error + norm_state \<Rightarrow> message list" where
  "printed_lines res = (case res of Inl e \<Rightarrow> [] | Inr s \<Rightarrow> printed s)"

fun is_dict_value :: "json \<Rightarrow> bool" where
  "is_dict_value (JDict kvs) = True"
| "is_dict_value j = False"

section \<open>The selector, the assembler and the manifest in the words of the specification\<close>

text \<open>
  The span of a manifest line: end date minus start date in days, when both are known.
\<close>

definition span_days :: "date option \<Rightarrow> date option \<Rightarrow> int option" where
  "span_days sd ed =
     (case sd of
        None \<Rightarrow> None
      | Some s \<Rightarrow> (case ed of None \<Rightarrow> None | Some e \<Rightarrow> Some (e - s)))"

text \<open>
  The inclusion rule as the specification words it: the row count is at least the
  minimum; when a minimum start date is configured, the start date is present and on or
  before it; when a minimum span is configured, the span is not below it. A span
  threshold of 0 counts as not configured, and a line without a span is not below any
  threshold.
\<close>

definition spec_include ::
  "int \<Rightarrow> date option \<Rightarrow> int option \<Rightarrow> int \<Rightarrow> date option \<Rightarrow> date option \<Rightarrow> bool" where
  "spec_include min_rows min_start min_span n sd ed =
     (min_rows \<le> n
      \<and> (case min_start of
           None \<Rightarrow> True
         | Some t \<Rightarrow> (case sd of None \<Rightarrow> False | Some s \<Rightarrow> s \<le> t))
      \<and> (case min_span of
           None \<Rightarrow> True
         | Some m \<Rightarrow>
             if m = 0 then True
             else (case span_days sd ed of None \<Rightarrow> True | Some d \<Rightarrow> m \<le> d)))"

definition has_data_lines :: "manifest_line list \<Rightarrow> manifest_line list" where
  "has_data_lines lines = filter (\<lambda>r. r_status r = ''has_data'') lines"

text \<open>The line of the output that the specification asks for one manifest line.\<close>

definition selection_entry ::
  "(string \<Rightarrow> date option) \<Rightarrow> int \<Rightarrow> date option \<Rightarrow> int option \<Rightarrow> manifest_line \<Rightarrow> ticker_row" where
  "selection_entry fromisoformat min_rows min_start min_span r =
     (let n = (case rows_count_of r of None \<Rightarrow> 0 | Some k \<Rightarrow> k);
          sd = parse_date fromisoformat (r_start_date r);
          ed = parse_date fromisoformat (r_end_date r)
      in \<lparr>s_ticker = r_ticker r,
          s_relative_path = r_relative_path r,
          s_rows = n,
          s_start_date = iso_or_empty sd,
          s_end_date = iso_or_empty ed,
          s_include = (if spec_include min_rows min_start min_span n sd ed then ''yes'' else ''no'')\<rparr>)"

text \<open>Row count descending, then ticker ascending.\<close>

definition listed_before :: "ticker_row \<Rightarrow> ticker_row \<Rightarrow> bool" where
  "listed_before x y =
     (s_rows y < s_rows x \<or> (s_rows x = s_rows y \<and> s_ticker x \<le> s_ticker y))"

text \<open>
  For the assembler: the file of a ticker is missing; a ticker yielded rows; the rows a
  ticker brings to the panel.
\<close>

definition file_missing :: "(string \<Rightarrow> panel_row list option) \<Rightarrow> string \<Rightarrow> bool" where
  "file_missing normal tk = (normal tk = None)"

definition yielded_rows :: "(string \<Rightarrow> panel_row list option) \<Rightarrow> string \<Rightarrow> bool" where
  "yielded_rows normal tk = (case normal tk of None \<Rightarrow> False | Some df \<Rightarrow> 0 < length df)"

definition ticker_rows :: "(string \<Rightarrow> panel_row list option) \<Rightarrow> string \<Rightarrow> panel_row list" where
  "ticker_rows normal tk =
     (case normal tk of None \<Rightarrow> [] | Some df \<Rightarrow> map (\<lambda>r. r\<lparr>c_ticker := tk\<rparr>) df)"



section \<open>Example inputs for the selector, the assembler and the manifest\<close>

text \<open>A stand-in for \<^verbatim>\<open>datetime.fromisoformat\<close> that knows two dates.\<close>

definition example_fromisoformat :: "string \<Rightarrow> date option" where
  "example_fromisoformat s =
     (if s = ''1970-01-02'' then Some 1
      else if s = ''1970-01-05'' then Some 4
      else None)"

text \<open>
  A manifest of four lines: two tickers with data from 1970-01-02 to 1970-01-05, one with
  data and no dates, and one empty array.
\<close>

definition selector_manifest :: "manifest_line list" where
  "selector_manifest =
     [\<lparr>r_ticker = ''B'', r_relative_path = ''B.json'', r_status = ''has_data'', r_rows = ''60'',
       r_start_date = ''1970-01-02'', r_end_date = ''1970-01-05''\<rparr>,
      \<lparr>r_ticker = ''E'', r_relative_path = ''E.json'', r_status = ''empty_array'', r_rows = ''0'',
       r_start_date = [], r_end_date = []\<rparr>,
      \<lparr>r_ticker = ''A'', r_relative_path = ''A.json'', r_status = ''has_data'', r_rows = ''60'',
       r_start_date = ''1970-01-02'', r_end_date = ''1970-01-02''\<rparr>,
      \<lparr>r_ticker = ''C'', r_relative_path = ''C.json'', r_status = ''has_data'', r_rows = ''120'',
       r_start_date = [], r_end_date = []\<rparr>]"

text \<open>
  A normalized directory with the file of \<^verbatim>\<open>A\<close>, which holds the header and no row, and
  the file of \<^verbatim>\<open>B\<close>, which holds one row; every other file is missing.
\<close>

definition example_row :: panel_row where
  "example_row =
     \<lparr>c_ticker = ''B'', c_trade_date = 1, c_open = NaN, c_high = NaN, c_low = NaN,
      c_close = Finite 5, c_turnover = NaN, c_share_volume = None, c_trade_volume = None\<rparr>"

definition example_normal :: "string \<Rightarrow> panel_row list option" where
  "example_normal tk =
     (if tk = ''A'' then Some [] else if tk = ''B'' then Some [example_row] else None)"




section \<open>The returns in the words of the specification\<close>






section \<open>Classifier: an exception of the size query\<close>

lemma classify_file_read_error:
  "sz \<noteq> 0 \<Longrightarrow> classify_file loads sz None = (''error'', 0, [], [])"
  by (simp add: classify_file_def)

lemma classify_dir_getsize_raises:
  "fn \<in> set fns \<Longrightarrow> has_raw_ext fn \<Longrightarrow> getsize (fs (relpath d fn)) = None
     \<Longrightarrow> classify_dir loads fs d fns = Inl OSError"
  by (induction fns) (auto simp: Let_def split: option.splits sum.splits prod.splits)

text \<open>
  C4. The claim says that an exception in any step of a file's processing gives that
  file the status \<^verbatim>\<open>error\<close> and lets the run go on. The size query of line 35 stands
  before the \<^verbatim>\<open>try\<close>: in a store of three files whose second one is a dangling link, the
  run ends with the exception and no manifest row is returned, also none for the two
  sound files.
\<close>

theorem classify_aborts_when_getsize_raises:
  "classify_and_summarize (\<lambda>s. None) dangling_store [([], [''a.json'', ''b.json'', ''c.json''])]
     = Inl OSError"
  by code_simp

section \<open>Normalizer: the fallback of the close cell\<close>

lemma row_close_cases:
  "row_close it =
     (if dict_get it ''close'' \<noteq> JNull then dict_get it ''close''
      else if truthy (dict_get it ''v'') then dict_get it ''v'' else JNull)"
  by (simp add: row_close_def py_or_def)

lemma row_trade_date_day1:
  assumes "map_of kvs ''tradeDate'' = None" and "map_of kvs ''d'' = None"
  shows "row_trade_date ((''date'', JInt 86400000) # kvs) = ''1970-01-02''"
proof -
  have "trade_date_field ((''date'', JInt 86400000) # kvs) = JInt 86400000"
    using assms by (simp add: trade_date_field_def py_or_def dict_get_def)
  moreover have "ms_to_date 86400000 = Some 1"
    by (simp add: ms_to_date_def)
  moreover have "isoformat 1 = ''1970-01-02''"
    by code_simp
  ultimately show ?thesis
    by (simp add: row_trade_date_def)
qed

text \<open>
  C10. A record whose \<^verbatim>\<open>close\<close> is 0 (integer or float) keeps it: the cell is not null,
  coerces to 0 and the row passes the two filters once its date is not empty. A record
  with no \<^verbatim>\<open>close\<close> and a falsy \<^verbatim>\<open>v\<close> gets a null close and is in no filtered table. With no
  \<^verbatim>\<open>close\<close>, the cell is the value of \<^verbatim>\<open>v\<close> exactly when \<^verbatim>\<open>v\<close> is truthy.
\<close>

theorem close_fallback_truthy:
  "(dict_get it ''close'' \<in> {JInt 0, JFloat (Finite 0)} \<longrightarrow>
      row_close it = dict_get it ''close'' \<and> \<not> pd_isnull (row_close it)
      \<and> to_numeric (row_close it) = Finite 0
      \<and> (row_trade_date it \<noteq> [] \<longrightarrow>
           build_row tk it \<in> set (filter_rows (build_rows tk [JDict it]))))
   \<and> (dict_get it ''close'' = JNull \<and> \<not> truthy (dict_get it ''v'') \<longrightarrow>
      row_close it = JNull \<and> build_row tk it \<notin> set (filter_rows rs))
   \<and> (dict_get it ''close'' = JNull \<longrightarrow>
        (row_close it = dict_get it ''v'' \<and> row_close it \<noteq> JNull) = truthy (dict_get it ''v''))"
  apply (intro conjI impI)
  apply (auto simp: row_close_def py_or_def pd_isnull_def filter_rows_def build_row_def)
  done

theorem close_fallback_truthy_witness:
  "row_close [(''date'', JInt 86400000), (''close'', JInt 0)] = JInt 0
   \<and> build_row ''T'' [(''date'', JInt 86400000), (''close'', JInt 0)]
       \<in> set (filter_rows (build_rows ''T'' [JDict [(''date'', JInt 86400000), (''close'', JInt 0)]]))
   \<and> row_close [(''date'', JInt 86400000), (''v'', JInt 0)] = JNull
   \<and> build_row ''T'' [(''date'', JInt 86400000), (''v'', JInt 0)]
       \<notin> set (filter_rows [build_row ''T'' [(''date'', JInt 86400000), (''v'', JInt 0)]])
   \<and> row_close [(''date'', JInt 86400000), (''v'', JInt 7)] = JInt 7"
  using close_fallback_truthy [of "[(''date'', JInt 86400000), (''close'', JInt 0)]" "''T''"]
        close_fallback_truthy [of "[(''date'', JInt 86400000), (''v'', JInt 0)]" "''T''"
          "[build_row ''T'' [(''date'', JInt 86400000), (''v'', JInt 0)]]"]
        close_fallback_truthy [of "[(''date'', JInt 86400000), (''v'', JInt 7)]"]
  by (simp add: dict_get_def row_trade_date_day1)

section \<open>Classifier: the decision tree\<close>

lemma strip_empty_iff: "strip s = [] \<longleftrightarrow> whitespace_only s"
proof -
  have "dropWhile py_isspace (rev (dropWhile py_isspace s)) = [] \<longleftrightarrow> dropWhile py_isspace s = []"
  proof (cases "dropWhile py_isspace s")
    case Nil
    show ?thesis unfolding Nil by simp
  next
    case (Cons x xs)
    then have "\<not> py_isspace x"
      using hd_dropWhile [of py_isspace s] by simp
    with Cons show ?thesis
      by (auto simp: dropWhile_eq_Nil_conv)
  qed
  moreover have "strip s = [] \<longleftrightarrow> dropWhile py_isspace (rev (dropWhile py_isspace s)) = []"
    by (simp add: strip_def)
  moreover have "dropWhile py_isspace s = [] \<longleftrightarrow> whitespace_only s"
    by (simp add: whitespace_only_def list_all_iff)
  ultimately show ?thesis by blast
qed

lemma drop_takeWhile_length: "drop (length (takeWhile P xs)) xs = dropWhile P xs"
  by (induction xs) auto

lemma take_rev_dropWhile:
  "take (length xs - length (takeWhile P (rev xs))) xs = rev (dropWhile P (rev xs))"
proof -
  have "rev (dropWhile P (rev xs)) = rev (drop (length (takeWhile P (rev xs))) (rev xs))"
    by (simp add: drop_takeWhile_length)
  also have "\<dots> = take (length xs - length (takeWhile P (rev xs))) xs"
    by (simp add: rev_drop)
  finally show ?thesis by simp
qed

lemma drop_rev_dropWhile_append:
  "drop (length a) (rev (dropWhile P (rev (a @ b)))) = rev (dropWhile P (rev b))"
proof (cases "\<forall>x \<in> set b. P x")
  case True
  then have "dropWhile P (rev b @ rev a) = dropWhile P (rev a)"
    by (intro dropWhile_append2) auto
  moreover have "length (dropWhile P (rev a)) \<le> length a"
    using length_dropWhile_le [of P "rev a"] by simp
  moreover have "dropWhile P (rev b) = []"
    using True by (simp add: dropWhile_eq_Nil_conv)
  ultimately show ?thesis by simp
next
  case False
  then have "dropWhile P (rev b @ rev a) = dropWhile P (rev b) @ rev a"
    by (auto simp: dropWhile_append1)
  then show ?thesis by simp
qed

lemma slice_is_bracket_substring:
  assumes "CHR ''['' \<in> set txt" and "CHR '']'' \<in> set txt"
  shows "py_slice txt (str_find (CHR ''['') txt) (str_rfind (CHR '']'') txt + 1)
           = rev (dropWhile (\<lambda>c. c \<noteq> CHR '']'') (rev (dropWhile (\<lambda>c. c \<noteq> CHR ''['') txt)))"
proof -
  let ?P = "\<lambda>c. c \<noteq> CHR '']''" and ?Q = "\<lambda>c. c \<noteq> CHR ''[''"
  let ?a = "takeWhile ?Q txt" and ?t = "takeWhile ?P (rev txt)"
  have lt: "length ?t < length txt"
  proof -
    have "dropWhile ?P (rev txt) \<noteq> []"
      using assms(2) by (auto simp: dropWhile_eq_Nil_conv)
    moreover have "length ?t + length (dropWhile ?P (rev txt)) = length txt"
      using takeWhile_dropWhile_id [of ?P "rev txt"]
      by (metis length_append length_rev)
    ultimately show ?thesis
      by (cases "dropWhile ?P (rev txt)") auto
  qed
  have la: "length ?a \<le> length txt"
    by (rule length_takeWhile_le)
  have "py_slice txt (str_find (CHR ''['') txt) (str_rfind (CHR '']'') txt + 1)
          = drop (length ?a) (take (length txt - length ?t) txt)"
    using assms lt la
    by (simp add: py_slice_def str_find_def str_rfind_def Let_def min_def nat_diff_distrib')
  also have "\<dots> = drop (length ?a) (rev (dropWhile ?P (rev txt)))"
    by (simp add: take_rev_dropWhile)
  also have "\<dots> = drop (length ?a) (rev (dropWhile ?P (rev (?a @ dropWhile ?Q txt))))"
    by simp
  also have "\<dots> = rev (dropWhile ?P (rev (dropWhile ?Q txt)))"
    by (rule drop_rev_dropWhile_append)
  finally show ?thesis .
qed

lemma parse_text_spec:
  "parse_text loads txt = (case spec_parse loads txt of None \<Rightarrow> JNull | Some j \<Rightarrow> j)"
  by (auto simp: parse_text_def spec_parse_def bracket_substring_def slice_is_bracket_substring
      split: option.splits)

lemma first_list_spec: "first_list kvs = spec_record_list (JDict kvs)"
proof (induction kvs)
  case Nil
  then show ?case by (simp add: spec_record_list_def)
next
  case (Cons kv kvs)
  obtain k v where kv: "kv = (k, v)" by (cases kv)
  show ?case using Cons
    by (cases v) (simp_all add: kv spec_record_list_def)
qed

lemma summarize_list_status:
  "fst (summarize_list v) = (if length v = 0 then ''empty_array'' else ''has_data'')"
  by (simp add: summarize_list_def Let_def)

lemma shape_analysis_status:
  "fst (shape_analysis j) =
     (case spec_record_list j of
        None \<Rightarrow> ''invalid_json''
      | Some v \<Rightarrow> if length v = 0 then ''empty_array'' else ''has_data'')"
proof (cases j)
  case (JDict kvs)
  then show ?thesis
    using first_list_spec [of kvs]
    by (simp add: shape_analysis_def summarize_list_status split: option.splits)
qed (simp_all add: shape_analysis_def spec_record_list_def summarize_list_status)

lemma spec_record_list_JNull: "spec_record_list JNull = None"
  by (simp add: spec_record_list_def)

lemma classify_file_status:
  "fst (classify_file loads sz cont) = spec_status loads sz cont"
proof (cases "sz = 0")
  case True
  then show ?thesis by (simp add: classify_file_def spec_status_def)
next
  case False
  show ?thesis
  proof (cases cont)
    case None
    with False show ?thesis by (simp add: classify_file_def spec_status_def)
  next
    case (Some raw)
    show ?thesis
    proof (cases "whitespace_only raw")
      case True
      with False Some show ?thesis
        by (simp add: classify_file_def spec_status_def strip_empty_iff)
    next
      case ws: False
      then have "strip raw \<noteq> []" by (simp add: strip_empty_iff)
      with False Some ws show ?thesis
        by (simp add: classify_file_def spec_status_def parse_text_spec shape_analysis_status
            spec_record_list_JNull split: option.splits)
    qed
  qed
qed

lemma classify_dir_rows:
  assumes "classify_dir loads fs d fns = Inr rs"
  shows "map (\<lambda>m. (relative_path m, status m, rows m, start_date m, end_date m)) rs
           = map (\<lambda>p. (backslash_to_slash p,
                        classify_file loads (file_size fs p) (read_text (fs p))))
               (map (relpath d) (filter has_raw_ext fns))"
  using assms
proof (induction fns arbitrary: rs)
  case Nil
  then show ?case by simp
next
  case (Cons fn fns)
  show ?case
  proof (cases "has_raw_ext fn")
    case False
    with Cons show ?thesis by simp
  next
    case True
    with Cons.prems obtain sz rest where sz: "getsize (fs (relpath d fn)) = Some sz"
      and rest: "classify_dir loads fs d fns = Inr rest"
      and rs: "map (\<lambda>m. (relative_path m, status m, rows m, start_date m, end_date m)) rs
                 = (backslash_to_slash (relpath d fn),
                    classify_file loads sz (read_text (fs (relpath d fn))))
                   # map (\<lambda>m. (relative_path m, status m, rows m, start_date m, end_date m)) rest"
      by (auto simp: Let_def split: option.splits prod.splits sum.splits)
    from Cons.IH [OF rest] rs sz True show ?thesis
      by (simp add: file_size_def)
  qed
qed

lemma classify_dir_total:
  assumes "\<forall>fn \<in> set fns. has_raw_ext fn \<longrightarrow> getsize (fs (relpath d fn)) \<noteq> None"
  shows "\<exists>rs. classify_dir loads fs d fns = Inr rs"
  using assms
  by (induction fns) (auto simp: Let_def split: option.splits prod.splits sum.splits)

lemma classify_rows:
  assumes "classify_and_summarize loads fs w = Inr ms"
  shows "map (\<lambda>m. (relative_path m, status m, rows m, start_date m, end_date m)) ms
           = map (\<lambda>p. (backslash_to_slash p,
                        classify_file loads (file_size fs p) (read_text (fs p))))
               (scanned_paths w)"
  using assms
proof (induction w arbitrary: ms)
  case Nil
  then show ?case by (simp add: scanned_paths_def)
next
  case (Cons a w)
  obtain d files where a: "a = (d, files)" by (cases a)
  from Cons.prems a obtain rs rest where rs: "classify_dir loads fs d (sort files) = Inr rs"
    and rest: "classify_and_summarize loads fs w = Inr rest" and ms: "ms = rs @ rest"
    by (auto split: sum.splits)
  from Cons.IH [OF rest] classify_dir_rows [OF rs] ms a show ?case
    by (simp add: scanned_paths_def)
qed

lemma classify_total:
  assumes "\<forall>p \<in> set (scanned_paths w). getsize (fs p) \<noteq> None"
  shows "\<exists>ms. classify_and_summarize loads fs w = Inr ms"
  using assms
proof (induction w)
  case Nil
  then show ?case by simp
next
  case (Cons a w)
  obtain d files where a: "a = (d, files)" by (cases a)
  from Cons.prems a
  have "\<forall>fn \<in> set (sort files). has_raw_ext fn \<longrightarrow> getsize (fs (relpath d fn)) \<noteq> None"
    by (auto simp: scanned_paths_def)
  from classify_dir_total [OF this] obtain rs where "classify_dir loads fs d (sort files) = Inr rs"
    by blast
  moreover from Cons.prems have "\<forall>p \<in> set (scanned_paths w). getsize (fs p) \<noteq> None"
    by (auto simp: scanned_paths_def)
  from Cons.IH [OF this] obtain rest where "classify_and_summarize loads fs w = Inr rest"
    by blast
  ultimately show ?case by (simp add: a)
qed

lemma tree_run:
  "\<forall>p \<in> set (scanned_paths tree_walk). getsize (tree_store p) \<noteq> None"
  "map (\<lambda>p. (backslash_to_slash p,
              spec_status example_loads (file_size tree_store p) (read_text (tree_store p))))
     (scanned_paths tree_walk)
   = [(''a.json'', ''has_data''), (''b.json'', ''empty_file''), (''sub/c.txt'', ''invalid_json''),
      (''sub/d.JSON'', ''empty_array''), (''sub/e.json'', ''error''),
      (''sub/f.json'', ''empty_file'')]"
  by code_simp+

lemma tree_sizes:
  "list_all (\<lambda>p. getsize (tree_store p) \<noteq> None) (scanned_paths tree_walk)"
  by code_simp

text \<open>
  C2. When the size of every scanned file can be read, the run returns the manifest, and
  its rows are, in order, the scanned files, each with the status of the decision tree
  for the size and the content of that file: empty file for size 0 or whitespace-only
  content, the parse of the text or else of its bracket substring, then empty array or
  has data on the list or on the first list-valued field of a dict, and invalid JSON for
  everything else. A read that raises gives the status \<^verbatim>\<open>error\<close>, which the tree of the
  claim does not name.
\<close>

theorem manifest_status_decision_tree:
  assumes "\<forall>p \<in> set (scanned_paths w). getsize (fs p) \<noteq> None"
  shows "\<exists>ms. classify_and_summarize loads fs w = Inr ms
           \<and> map (\<lambda>m. (relative_path m, status m)) ms
             = map (\<lambda>p. (backslash_to_slash p,
                          spec_status loads (file_size fs p) (read_text (fs p))))
                 (scanned_paths w)"
proof -
  from classify_total [OF assms] obtain ms where ms: "classify_and_summarize loads fs w = Inr ms"
    by blast
  have "map (\<lambda>m. (relative_path m, status m)) ms
          = map (\<lambda>t. (fst t, fst (snd t)))
              (map (\<lambda>m. (relative_path m, status m, rows m, start_date m, end_date m)) ms)"
    by simp
  also have "\<dots> = map (\<lambda>t. (fst t, fst (snd t)))
              (map (\<lambda>p. (backslash_to_slash p,
                           classify_file loads (file_size fs p) (read_text (fs p))))
                 (scanned_paths w))"
    by (simp only: classify_rows [OF ms])
  also have "\<dots> = map (\<lambda>p. (backslash_to_slash p,
                          spec_status loads (file_size fs p) (read_text (fs p))))
                 (scanned_paths w)"
    by (simp add: classify_file_status)
  finally show ?thesis using ms by blast
qed

theorem manifest_status_decision_tree_witness:
  "list_all (\<lambda>p. getsize (tree_store p) \<noteq> None) (scanned_paths tree_walk)
   \<and> (\<exists>ms. classify_and_summarize example_loads tree_store tree_walk = Inr ms
          \<and> map (\<lambda>m. (relative_path m, status m)) ms
            = [(''a.json'', ''has_data''), (''b.json'', ''empty_file''),
               (''sub/c.txt'', ''invalid_json''), (''sub/d.JSON'', ''empty_array''),
               (''sub/e.json'', ''error''), (''sub/f.json'', ''empty_file'')])"
  using manifest_status_decision_tree [OF tree_run(1), of example_loads] tree_run(2) tree_sizes
  by simp

section \<open>Classifier: the dates of the manifest\<close>

lemma trade_date_field_first_truthy: "trade_date_field it = first_truthy_alias it"
  by (simp add: trade_date_field_def first_truthy_alias_def alias_values_def py_or_def)

lemma record_date_epoch: "record_date (JDict it) = epoch_ms_date (first_truthy_alias it)"
  by (simp add: epoch_ms_date_def trade_date_field_first_truthy Let_def Option.bind_def
      split: option.splits)

lemma extract_dates_alias: "extract_dates v = dates_by first_truthy_alias v"
proof (induction v)
  case Nil
  then show ?case by (simp add: extract_dates_def List.map_filter_simps)
next
  case (Cons r rs)
  then show ?case
    by (cases r) (simp_all add: extract_dates_def List.map_filter_simps record_date_epoch
        del: record_date.simps(1) split: option.splits)
qed

lemma summarize_list_dates:
  "v \<noteq> [] \<Longrightarrow>
     summarize_list v =
       (''has_data'', length v, fst (date_range (dates_by first_truthy_alias v)),
        snd (date_range (dates_by first_truthy_alias v)))"
  by (simp add: summarize_list_def Let_def date_range_def extract_dates_alias)

lemma summarize_list_has_data:
  "summarize_list v = (''has_data'', n, sd, ed) \<Longrightarrow>
     v \<noteq> [] \<and> n = length v \<and> (sd, ed) = date_range (dates_by first_truthy_alias v)"
  by (cases "v = []") (auto simp: summarize_list_dates, simp add: summarize_list_def)

lemma shape_analysis_has_data:
  assumes "shape_analysis j = (''has_data'', n, sd, ed)"
  shows "\<exists>v. spec_record_list j = Some v \<and> v \<noteq> [] \<and> n = length v
            \<and> (sd, ed) = date_range (dates_by first_truthy_alias v)"
proof (cases j)
  case (JList v)
  with assms show ?thesis
    using summarize_list_has_data [of v n sd ed]
    by (simp add: shape_analysis_def spec_record_list_def)
next
  case (JDict kvs)
  with assms show ?thesis
    using summarize_list_has_data [of _ n sd ed]
    by (auto simp: shape_analysis_def first_list_spec split: option.splits)
qed (use assms in \<open>simp_all add: shape_analysis_def\<close>)

lemma map_eq_list_all2: "map f xs = map g ys \<Longrightarrow> list_all2 (\<lambda>x y. f x = g y) xs ys"
  by (induction xs arbitrary: ys) (auto simp: Cons_eq_map_conv)

lemma classify_file_has_data:
  assumes "classify_file loads sz cont = (''has_data'', n, sd, ed)"
  shows "\<exists>raw v. cont = Some raw \<and> file_records loads raw = Some v \<and> v \<noteq> [] \<and> n = length v
           \<and> (sd, ed) = date_range (dates_by first_truthy_alias v)"
proof -
  from assms obtain raw where raw: "cont = Some raw"
    and sh: "shape_analysis (parse_text loads (strip raw)) = (''has_data'', n, sd, ed)"
    by (auto simp: classify_file_def Let_def split: if_splits option.splits)
  from shape_analysis_has_data [OF sh] obtain v where
    v: "spec_record_list (parse_text loads (strip raw)) = Some v" and
    rest: "v \<noteq> []" "n = length v" "(sd, ed) = date_range (dates_by first_truthy_alias v)"
    by blast
  from v have "file_records loads raw = Some v"
    by (simp add: file_records_def parse_text_spec spec_record_list_JNull split: option.splits)
  with raw rest show ?thesis by blast
qed

lemma zero_date_run:
  "classify_and_summarize zero_date_loads zero_date_store zero_date_walk
     = Inr [\<lparr>ticker = ''z'', relative_path = ''z.json'', status = ''has_data'', rows = 1,
             start_date = ''1970-01-03'', end_date = ''1970-01-03'', filesize_bytes = 3\<rparr>]"
  by code_simp

lemma zero_date_file:
  "scanned_paths zero_date_walk = [''z.json'']"
  "read_text (zero_date_store ''z.json'') = Some ''[A]''"
  "file_records zero_date_loads ''[A]'' = Some [zero_date_record]"
  by code_simp+

lemma zero_date_claimed:
  "date_range (dates_by first_present_alias [zero_date_record]) = (''1970-01-01'', ''1970-01-01'')"
  by code_simp

lemma zero_date_amended:
  "date_range (dates_by first_truthy_alias [zero_date_record]) = (''1970-01-03'', ''1970-01-03'')"
  by code_simp

text \<open>
  C3 as stated fails. The lookup is an \<^verbatim>\<open>or\<close> chain, so an alias whose value is falsy (0,
  an empty string, \<^verbatim>\<open>false\<close>) is passed over although the record holds it: for the file
  whose one record has \<^verbatim>\<open>tradeDate\<close> 0 and \<^verbatim>\<open>d\<close> two days later the manifest row says
  1970-01-03, and reading the aliases in priority order gives 1970-01-01.
\<close>

theorem manifest_dates_first_present_counterexample:
  "classify_and_summarize zero_date_loads zero_date_store zero_date_walk
     = Inr [\<lparr>ticker = ''z'', relative_path = ''z.json'', status = ''has_data'', rows = 1,
             start_date = ''1970-01-03'', end_date = ''1970-01-03'', filesize_bytes = 3\<rparr>]
   \<and> read_text (zero_date_store ''z.json'') = Some ''[A]''
   \<and> file_records zero_date_loads ''[A]'' = Some [zero_date_record]
   \<and> date_range (dates_by first_present_alias [zero_date_record])
     = (''1970-01-01'', ''1970-01-01'')"
  by (simp add: zero_date_run zero_date_file zero_date_claimed)

text \<open>
  C3 as amended. The rows of the manifest are, in order, the scanned files. For a row
  with the status \<^verbatim>\<open>has_data\<close> the file could be read, its record list is not empty, the
  row count is the length of the list, and the start and end dates are the ISO forms of
  the least and the greatest date of its records, where the date of a record that is a
  mapping is the epoch-millisecond value of the first truthy alias among \<^verbatim>\<open>tradeDate\<close>,
  \<^verbatim>\<open>d\<close>, \<^verbatim>\<open>date\<close> (the value of \<^verbatim>\<open>date\<close> when none is truthy); records without a
  convertible value are left out, which does not change the status, and both dates are
  empty when no record gives a date.
\<close>

theorem manifest_dates_first_truthy_alias:
  assumes "classify_and_summarize loads fs w = Inr ms"
  shows "list_all2
           (\<lambda>m p. relative_path m = backslash_to_slash p
              \<and> (status m = ''has_data'' \<longrightarrow>
                   (\<exists>raw v. read_text (fs p) = Some raw \<and> file_records loads raw = Some v
                      \<and> v \<noteq> [] \<and> rows m = length v
                      \<and> (start_date m, end_date m)
                          = date_range (dates_by first_truthy_alias v))))
           ms (scanned_paths w)"
proof -
  have "list_all2
          (\<lambda>m p. (relative_path m, status m, rows m, start_date m, end_date m)
                   = (backslash_to_slash p, classify_file loads (file_size fs p) (read_text (fs p))))
          ms (scanned_paths w)"
    using classify_rows [OF assms] by (rule map_eq_list_all2)
  then show ?thesis
  proof (rule list_all2_mono)
    fix m p
    assume eq: "(relative_path m, status m, rows m, start_date m, end_date m)
                  = (backslash_to_slash p, classify_file loads (file_size fs p) (read_text (fs p)))"
    then have rel: "relative_path m = backslash_to_slash p"
      and cf: "classify_file loads (file_size fs p) (read_text (fs p))
                 = (status m, rows m, start_date m, end_date m)"
      by simp_all
    show "relative_path m = backslash_to_slash p
            \<and> (status m = ''has_data'' \<longrightarrow>
                 (\<exists>raw v. read_text (fs p) = Some raw \<and> file_records loads raw = Some v
                    \<and> v \<noteq> [] \<and> rows m = length v
                    \<and> (start_date m, end_date m)
                        = date_range (dates_by first_truthy_alias v)))"
      using rel classify_file_has_data [of loads "file_size fs p" "read_text (fs p)"
          "rows m" "start_date m" "end_date m"] cf
      by auto
  qed
qed

theorem manifest_dates_first_truthy_alias_witness:
  "classify_and_summarize zero_date_loads zero_date_store zero_date_walk
     = Inr [\<lparr>ticker = ''z'', relative_path = ''z.json'', status = ''has_data'', rows = 1,
             start_date = ''1970-01-03'', end_date = ''1970-01-03'', filesize_bytes = 3\<rparr>]
   \<and> (\<exists>raw v. read_text (zero_date_store ''z.json'') = Some raw
          \<and> file_records zero_date_loads raw = Some v
          \<and> v \<noteq> [] \<and> (1::nat) = length v
          \<and> (''1970-01-03'', ''1970-01-03'') = date_range (dates_by first_truthy_alias v))"
  using manifest_dates_first_truthy_alias [OF zero_date_run] zero_date_run zero_date_file(1)
  by simp

section \<open>Normalizer: the rows that are written\<close>


lemma build_rows_Nil_iff: "build_rows tk recs = [] \<longleftrightarrow> list_all (\<lambda>x. \<not> is_dict_value x) recs"
proof (induction recs)
  case Nil
  then show ?case by simp
next
  case (Cons r rs)
  then show ?case by (cases r) auto
qed



lemma coerce_rows_length: "coerce_rows rs = Some cs \<Longrightarrow> length cs = length rs"
  by (induction rs arbitrary: cs) (auto split: option.splits)





lemma zero_survivors_table: "filter_rows rws = [] \<Longrightarrow> normalized_table rws = Some []"
  by (simp add: normalized_table_def)

lemma load_raw_readable:
  "load_raw loads c (Some txt) = load_raw loads None (Some txt)"
  by (simp add: load_raw_def)




lemma int_rejects_separator:
  "py_int (JStr (CHR 0x1C # ''86400000'')) = None"
  "py_int (JStr (CHR 0x20 # ''86400000'' @ [CHR 0x0A])) = Some 86400000"
  "row_trade_date [(''date'', JStr (CHR 0x1C # ''86400000''))] = []"
  by code_simp+





lemma undated_run:
  "written_table (normalize_has_data normalizer_loads normalizer_store empty_state
      [line_for ''U'' ''u.json'', line_for ''W'' ''w.json'']) ''U'' = Some []"
  "written_table (normalize_has_data normalizer_loads normalizer_store empty_state
      [line_for ''U'' ''u.json'', line_for ''W'' ''w.json'']) ''W'' = None"
  "printed_lines (normalize_has_data normalizer_loads normalizer_store empty_state
      [line_for ''U'' ''u.json'', line_for ''W'' ''w.json'']) = [Wrote ''U'' 0, No_rows ''W'']"
  by code_simp+

lemma undated_source:
  "normalizer_store ''u.json'' = Some ''[C]''"
  "normalizer_loads ''[C]'' = Some (JList [undated_record])"
  "filter_rows (build_rows ''U'' [undated_record]) = []"
  "normalizer_store ''w.json'' = Some ''[D]''"
  "normalizer_loads ''[D]'' = Some (JList [JInt 1, JStr ''x''])"
  by code_simp+




section \<open>Normalizer: a ticker without surviving rows\<close>

lemma zero_survivors_entry:
  assumes "r_status r = ''has_data''"
      and "snd (load_raw loads (content st) (rd (r_relative_path r))) = Some j"
      and "find_records j = Some records"
      and "filter_rows (build_rows (r_ticker r) records) = []"
  shows "\<exists>st'. normalize_entry loads rd st r = Inr st'
           \<and> normalize_has_data loads rd st (r # rs) = normalize_has_data loads rd st' rs
           \<and> (if list_all (\<lambda>x. \<not> is_dict_value x) records
               then normalized st' = normalized st
                    \<and> printed st' = printed st @ [No_rows (r_ticker r)]
               else normalized st' = (normalized st)(r_ticker r \<mapsto> [])
                    \<and> printed st' = printed st @ [Wrote (r_ticker r) 0])"
proof (cases "build_rows (r_ticker r) records = []")
  case True
  then have "list_all (\<lambda>x. \<not> is_dict_value x) records"
    by (simp add: build_rows_Nil_iff)
  with True assms show ?thesis
    by (simp add: normalize_entry_def Let_def)
next
  case False
  then have "\<not> list_all (\<lambda>x. \<not> is_dict_value x) records"
    by (simp add: build_rows_Nil_iff)
  with False assms zero_survivors_table [OF assms(4)] show ?thesis
    by (simp add: normalize_entry_def Let_def)
qed

text \<open>
  C5. The claim says that a \<^verbatim>\<open>has_data\<close> line whose records all fail the row filters
  gives no output file. The test for an empty row list (line 189) stands before the two
  filters of lines 194 and 195, and nothing tests the table after them. In a manifest of
  two such lines, the file of \<^verbatim>\<open>W\<close> holds no record that is a mapping: no row is built,
  no file is written and the ticker is reported as having no rows. The file of \<^verbatim>\<open>U\<close>
  holds one record with a close and no date: a row is built, the filters leave nothing,
  and the file of the ticker is written all the same, with the header and no row, and
  reported as written. The run goes on after both lines without an exception.
\<close>

theorem zero_survivors_file_written:
  "normalizer_store ''u.json'' = Some ''[C]''
   \<and> normalizer_loads ''[C]'' = Some (JList [undated_record])
   \<and> filter_rows (build_rows ''U'' [undated_record]) = []
   \<and> written_table (normalize_has_data normalizer_loads normalizer_store empty_state
         [line_for ''U'' ''u.json'', line_for ''W'' ''w.json'']) ''U'' = Some []
   \<and> written_table (normalize_has_data normalizer_loads normalizer_store empty_state
         [line_for ''U'' ''u.json'', line_for ''W'' ''w.json'']) ''W'' = None
   \<and> printed_lines (normalize_has_data normalizer_loads normalizer_store empty_state
         [line_for ''U'' ''u.json'', line_for ''W'' ''w.json'']) = [Wrote ''U'' 0, No_rows ''W'']"
  by (intro conjI undated_run undated_source)

section \<open>Selector: the inclusion rule and the order of the output\<close>

lemma include_flag_spec:
  "include_flag min_rows min_start min_span n sd ed = spec_include min_rows min_start min_span n sd ed"
  by (auto simp: include_flag_def spec_include_def span_days_def Let_def split: option.splits)

lemma select_rows_spec:
  assumes "\<forall>r \<in> set (has_data_lines lines). rows_count_of r \<noteq> None"
  shows "select_rows f a b c lines = Inr (map (selection_entry f a b c) (has_data_lines lines))"
  using assms
  by (induction lines)
     (auto simp: has_data_lines_def selection_entry_def include_flag_spec Let_def)

lemma listed_before_key:
  "listed_before x y \<longleftrightarrow> (- s_rows x, s_ticker x) \<le> (- s_rows y, s_ticker y)"
  by (auto simp: listed_before_def)

lemma sorted_listed_before:
  "sorted_wrt listed_before (sort_key (\<lambda>x. (- s_rows x, s_ticker x)) xs)"
proof -
  have "sorted (map (\<lambda>x. (- s_rows x, s_ticker x)) (sort_key (\<lambda>x. (- s_rows x, s_ticker x)) xs))"
    by (rule sorted_sort_key)
  then have "sorted_wrt (\<lambda>x y. (- s_rows x, s_ticker x) \<le> (- s_rows y, s_ticker y))
               (sort_key (\<lambda>x. (- s_rows x, s_ticker x)) xs)"
    by (simp only: sorted_map)
  then show ?thesis
    by (rule sorted_wrt_mono_rel [rotated]) (simp only: listed_before_key)
qed

lemma selector_example:
  "\<forall>r \<in> set (has_data_lines selector_manifest). rows_count_of r \<noteq> None"
  "select_tickers_main example_fromisoformat 50 (Some 2) (Some 3) (Some selector_manifest)
     = Inr [\<lparr>s_ticker = ''C'', s_relative_path = ''C.json'', s_rows = 120, s_start_date = [],
             s_end_date = [], s_include = ''no''\<rparr>,
            \<lparr>s_ticker = ''A'', s_relative_path = ''A.json'', s_rows = 60,
             s_start_date = ''1970-01-02'', s_end_date = ''1970-01-02'', s_include = ''no''\<rparr>,
            \<lparr>s_ticker = ''B'', s_relative_path = ''B.json'', s_rows = 60,
             s_start_date = ''1970-01-02'', s_end_date = ''1970-01-05'', s_include = ''yes''\<rparr>]"
  by code_simp+

lemma selector_rows_readable:
  "list_all (\<lambda>r. rows_count_of r \<noteq> None) (has_data_lines selector_manifest)"
  by code_simp

text \<open>
  C6. When the row count of every \<^verbatim>\<open>has_data\<close> line of the manifest can be read, the
  selector ends without an exception; its output holds, for each \<^verbatim>\<open>has_data\<close> line and for
  no other, the entry whose include flag is \<^verbatim>\<open>yes\<close> exactly when the inclusion rule of the
  specification holds, and the entries are listed by row count descending and then by
  ticker ascending. A span threshold of 0 is read as not configured, and the span test
  asks nothing of a line that lacks a date.
\<close>

theorem selector_rule_and_order:
  assumes "\<forall>r \<in> set (has_data_lines lines). rows_count_of r \<noteq> None"
  shows "\<exists>out. select_tickers_main fromisoformat min_rows min_start min_span (Some lines) = Inr out
           \<and> mset out
               = mset (map (selection_entry fromisoformat min_rows min_start min_span)
                        (has_data_lines lines))
           \<and> sorted_wrt listed_before out"
proof (intro exI conjI)
  show "select_tickers_main fromisoformat min_rows min_start min_span (Some lines)
          = Inr (sort_key (\<lambda>x. (- s_rows x, s_ticker x))
                  (map (selection_entry fromisoformat min_rows min_start min_span)
                    (has_data_lines lines)))"
    by (simp add: select_tickers_main_def select_rows_spec [OF assms])
  show "mset (sort_key (\<lambda>x. (- s_rows x, s_ticker x))
               (map (selection_entry fromisoformat min_rows min_start min_span)
                 (has_data_lines lines)))
          = mset (map (selection_entry fromisoformat min_rows min_start min_span)
                   (has_data_lines lines))"
    by (rule mset_sort)
  show "sorted_wrt listed_before
          (sort_key (\<lambda>x. (- s_rows x, s_ticker x))
            (map (selection_entry fromisoformat min_rows min_start min_span)
              (has_data_lines lines)))"
    by (rule sorted_listed_before)
qed

theorem selector_rule_and_order_witness:
  "list_all (\<lambda>r. rows_count_of r \<noteq> None) (has_data_lines selector_manifest)
   \<and> select_tickers_main example_fromisoformat 50 (Some 2) (Some 3) (Some selector_manifest)
     = Inr [\<lparr>s_ticker = ''C'', s_relative_path = ''C.json'', s_rows = 120, s_start_date = [],
             s_end_date = [], s_include = ''no''\<rparr>,
            \<lparr>s_ticker = ''A'', s_relative_path = ''A.json'', s_rows = 60,
             s_start_date = ''1970-01-02'', s_end_date = ''1970-01-02'', s_include = ''no''\<rparr>,
            \<lparr>s_ticker = ''B'', s_relative_path = ''B.json'', s_rows = 60,
             s_start_date = ''1970-01-02'', s_end_date = ''1970-01-05'', s_include = ''yes''\<rparr>]
   \<and> (\<exists>out. select_tickers_main example_fromisoformat 50 (Some 2) (Some 3) (Some selector_manifest)
               = Inr out
          \<and> mset out
              = mset (map (selection_entry example_fromisoformat 50 (Some 2) (Some 3))
                       (has_data_lines selector_manifest))
          \<and> sorted_wrt listed_before out)"
  by (intro conjI selector_rows_readable selector_example(2)
      selector_rule_and_order [OF selector_example(1)])

section \<open>Assembler: when the run fails\<close>

lemma read_parts_fst_Nil:
  "fst (read_parts normal tks) = [] \<longleftrightarrow> list_all (file_missing normal) tks"
  by (induction tks) (auto simp: file_missing_def split: prod.splits option.splits)

lemma read_parts_snd: "snd (read_parts normal tks) = filter (file_missing normal) tks"
  by (induction tks) (auto simp: file_missing_def split: prod.splits option.splits)

lemma read_parts_concat:
  "concat (fst (read_parts normal tks)) = concat (map (ticker_rows normal) tks)"
  by (induction tks) (auto simp: ticker_rows_def split: prod.splits option.splits)

lemma assemble_cases:
  "assemble normal tks =
     (if list_all (file_missing normal) tks then Inl SystemExit
      else Inr (sort_key (\<lambda>r. (c_ticker r, c_trade_date r)) (concat (map (ticker_rows normal) tks)),
                filter (file_missing normal) tks))"
  using read_parts_fst_Nil [of normal tks] read_parts_snd [of normal tks]
        read_parts_concat [of normal tks]
  by (auto simp: assemble_def split: prod.splits)

lemma header_only_run:
  "example_normal ''A'' = Some []"
  "example_normal ''M'' = None"
  "\<not> list_ex (yielded_rows example_normal) [''A'', ''M'']"
  "assemble example_normal [''A'', ''M''] = Inr ([], [''M''])"
  "assemble example_normal [''M''] = Inl SystemExit"
  by code_simp+

text \<open>
  C7. The claim says that the run fails exactly when no ticker yielded a row. The test
  before the exit (line 34) is on the list of tables read, not on their rows. With the
  tickers \<^verbatim>\<open>A\<close> and \<^verbatim>\<open>M\<close> selected, where the file of \<^verbatim>\<open>A\<close> holds the header and no row,
  which is a file the normalizer writes, and the file of \<^verbatim>\<open>M\<close> is missing, no ticker
  yielded a row, and the assembler warns about \<^verbatim>\<open>M\<close>, writes the panel, empty, and ends
  normally. With \<^verbatim>\<open>M\<close> alone it ends with \<^verbatim>\<open>SystemExit\<close>.
\<close>

theorem assemble_header_only_no_exit:
  "example_normal ''A'' = Some []
   \<and> example_normal ''M'' = None
   \<and> \<not> list_ex (yielded_rows example_normal) [''A'', ''M'']
   \<and> assemble example_normal [''A'', ''M''] = Inr ([], [''M''])
   \<and> assemble example_normal [''M''] = Inl SystemExit"
  by (intro conjI header_only_run)

section \<open>Classifier: the manifest does not depend on the listing order\<close>







section \<open>Returns: the two columns of a ticker\<close>

lemma length_pad_from [simp]: "length (pad_from l xs) = length xs"
  by (induction xs arbitrary: l) simp_all


lemma length_shift_one [simp]: "length (shift_one xs) = length xs"
  by (simp add: shift_one_def)


lemma fdiv_Null_right [simp]: "fdiv a Null = Null"
  by (cases a) simp_all

lemma length_pct_change [simp]: "length (pct_change fill xs) = length xs"
  by (simp add: pct_change_def Let_def)












end
